theory Spec2Isabelle
  imports Complex_Main "HOL-Library.Char_ord" "HOL-Library.List_Lexorder" "HOL-Library.Multiset"
    "HOL-Library.Sublist"
begin

section \<open>Python values used by app.py\<close>

text \<open>
  Exceptions are values. \<open>RequestException\<close> stands for whatever
  \<^verbatim>\<open>requests.get(url, ...).json()\<close> raises (timeout, connection error, a body that is not
  JSON); the other constructors are the Python exceptions the code of app.py can raise by
  itself.
\<close>

datatype error = RequestException | KeyError | ValueError | IndexError | AttributeError

text \<open>
  Strings are \<open>char list\<close>. The string methods below are those of Python's \<^verbatim>\<open>str\<close> on
  ASCII text: a character outside ASCII counts as neither letter, digit nor space.
  Comparison of strings is the lexicographic order on character codes, as in Python.
\<close>

definition is_upper :: "char \<Rightarrow> bool" where
  "is_upper c = (CHR ''A'' \<le> c \<and> c \<le> CHR ''Z'')"

definition is_lower :: "char \<Rightarrow> bool" where
  "is_lower c = (CHR ''a'' \<le> c \<and> c \<le> CHR ''z'')"

definition is_digit :: "char \<Rightarrow> bool" where
  "is_digit c = (CHR ''0'' \<le> c \<and> c \<le> CHR ''9'')"

definition is_space :: "char \<Rightarrow> bool" where
  "is_space c = (let n = (of_char c :: nat) in (9 \<le> n \<and> n \<le> 13) \<or> (28 \<le> n \<and> n \<le> 32))"

definition to_lower :: "char \<Rightarrow> char" where
  "to_lower c = (if is_upper c then char_of (of_char c + (32 :: nat)) else c)"

definition to_upper :: "char \<Rightarrow> char" where
  "to_upper c = (if is_lower c then char_of (of_char c - (32 :: nat)) else c)"

definition digit_val :: "char \<Rightarrow> nat" where
  "digit_val c = of_char c - of_char CHR ''0''"

text \<open>\<^verbatim>\<open>s.lower()\<close>\<close>

definition py_lower :: "string \<Rightarrow> string" where
  "py_lower s = map to_lower s"

text \<open>\<^verbatim>\<open>s.isdigit()\<close>: false on the empty string.\<close>

definition py_isdigit :: "string \<Rightarrow> bool" where
  "py_isdigit s = (s \<noteq> [] \<and> list_all is_digit s)"

text \<open>
  \<^verbatim>\<open>s.title()\<close>: a letter that follows a letter is lowered, a letter that follows anything
  else (or starts the string) is raised; other characters are kept.
\<close>

fun title_from :: "bool \<Rightarrow> string \<Rightarrow> string" where
  "title_from previous_is_cased [] = []"
| "title_from previous_is_cased (c # cs) =
     (if is_upper c \<or> is_lower c
      then (if previous_is_cased then to_lower c else to_upper c) # title_from True cs
      else c # title_from False cs)"

definition py_title :: "string \<Rightarrow> string" where
  "py_title s = title_from False s"

text \<open>
  \<^verbatim>\<open>int(s)\<close> in base 10: surrounding whitespace is stripped, one sign is allowed, then
  decimal digits, where single underscores may separate digits. Anything else raises
  ValueError.
\<close>

definition py_strip :: "string \<Rightarrow> string" where
  "py_strip s = rev (dropWhile is_space (rev (dropWhile is_space s)))"

fun digits_from :: "nat \<Rightarrow> string \<Rightarrow> error + nat" where
  "digits_from acc [] = Inr acc"
| "digits_from acc [c] =
     (if is_digit c then Inr (10 * acc + digit_val c) else Inl ValueError)"
| "digits_from acc (c # d # ds) =
     (if is_digit c then digits_from (10 * acc + digit_val c) (d # ds)
      else if c = CHR ''_'' \<and> is_digit d then digits_from (10 * acc + digit_val d) ds
      else Inl ValueError)"

definition unsigned_from :: "string \<Rightarrow> error + nat" where
  "unsigned_from s =
     (case s of
        [] \<Rightarrow> Inl ValueError
      | c # cs \<Rightarrow> if is_digit c then digits_from (digit_val c) cs else Inl ValueError)"

definition py_int :: "string \<Rightarrow> error + int" where
  "py_int s =
     (case py_strip s of
        [] \<Rightarrow> Inl ValueError
      | c # cs \<Rightarrow>
          if c = CHR ''-'' then
            (case unsigned_from cs of Inl e \<Rightarrow> Inl e | Inr n \<Rightarrow> Inr (- int n))
          else if c = CHR ''+'' then
            (case unsigned_from cs of Inl e \<Rightarrow> Inl e | Inr n \<Rightarrow> Inr (int n))
          else
            (case unsigned_from (c # cs) of Inl e \<Rightarrow> Inl e | Inr n \<Rightarrow> Inr (int n)))"

text \<open>
  \<^verbatim>\<open>sorted(xs, key=k, reverse=True)\<close>: CPython reverses the list, sorts it stably in
  ascending order of the key and reverses the outcome, so that elements with equal keys
  keep their original order.
\<close>

definition py_sorted_reverse :: "('a \<Rightarrow> 'k::linorder) \<Rightarrow> 'a list \<Rightarrow> 'a list" where
  "py_sorted_reverse k xs = rev (sort_key k (rev xs))"

text \<open>\<^verbatim>\<open>xs[0]\<close>\<close>

definition py_first :: "'a list \<Rightarrow> error + 'a" where
  "py_first xs = (case xs of [] \<Rightarrow> Inl IndexError | x # _ \<Rightarrow> Inr x)"

section \<open>Responses of the metadata service\<close>

text \<open>
  A JSON object is a record whose fields are options: \<open>None\<close> is a key that is absent.
  A field read with \<^verbatim>\<open>d[key]\<close> raises KeyError when absent, a field read with
  \<^verbatim>\<open>d.get(key, default)\<close> takes the default. Present fields carry a value of the type the
  service documents (numbers as rationals, which compare as Python's finite numbers do).
\<close>

record search_result =
  sr_id :: "int option"
  sr_popularity :: "rat option"
  sr_poster_path :: "string option"

record search_response =
  sr_results :: "search_result list option"

record genre_entry =
  g_id :: "int option"
  g_name :: "string option"

record cast_member =
  cm_name :: "string option"

record crew_member =
  cw_name :: "string option"
  cw_job :: "string option"

record credits =
  cr_cast :: "cast_member list option"
  cr_crew :: "crew_member list option"

text \<open>An entry of the similar-titles list or of the discovery list.\<close>

record candidate =
  c_id :: "int option"
  c_title :: "string option"
  c_release_date :: "string option"

record candidate_page =
  cp_results :: "candidate list option"

record collection_ref =
  cl_id :: "int option"

record details =
  d_title :: "string option"
  d_genres :: "genre_entry list option"
  d_release_date :: "string option"
  d_credits :: "credits option"
  d_overview :: "string option"
  d_vote_average :: "rat option"
  d_similar :: "candidate_page option"
  d_belongs_to_collection :: "collection_ref option"

record part =
  p_title :: "string option"
  p_release_date :: "string option"

record collection =
  cl_parts :: "part list option"

record genre_list =
  gl_genres :: "genre_entry list option"

text \<open>
  The service, one field per URL that app.py requests, each a function from what the URL
  is built from to what \<^verbatim>\<open>requests.get(url).json()\<close> gives: an exception or the decoded
  body. \<open>get_movie\<close> is \<^verbatim>\<open>/movie/{id}\<close>, \<open>get_details\<close> is the same with
  \<^verbatim>\<open>append_to_response=similar,credits\<close>, \<open>get_discover\<close> takes the genre ids in the order
  of the \<^verbatim>\<open>with_genres\<close> parameter and the year of \<^verbatim>\<open>primary_release_date.gte\<close>.
  \<open>set_order\<close> is the order in which Python iterates over \<^verbatim>\<open>set(xs)\<close>, which the language
  leaves open.
\<close>

record world =
  get_search :: "string \<Rightarrow> error + search_response"
  get_details :: "int \<Rightarrow> error + details"
  get_movie :: "int \<Rightarrow> error + details"
  get_collection :: "int \<Rightarrow> error + collection"
  get_genre_list :: "error + genre_list"
  get_discover :: "int list \<Rightarrow> int \<Rightarrow> error + candidate_page"
  set_order :: "string list \<Rightarrow> string list"

section \<open>fetch\_movie\_data\_from\_api\<close>

text \<open>
  The dictionary that fetch\_movie\_data\_from\_api builds. Its keys are always there;
  \<open>genre\<close> and \<open>year\<close> are options because recommend reads them with
  \<^verbatim>\<open>movie_info.get(key, default)\<close>. \<open>title\<close> is \<^verbatim>\<open>details.get("title")\<close>, which is
  Python's None when the service sent no title.
\<close>

datatype rating = Rating rat | NotAvailable

record movie_info =
  title :: "string option"
  genre :: "string list option"
  year :: "string option"
  cast :: "string list"
  director :: "string list"
  overview :: string
  rating :: rating
  similar :: "candidate list"

text \<open>
  \<^verbatim>\<open>sorted(response['results'], key=lambda x: x.get('popularity', 0), reverse=True)[0]\<close>
\<close>

definition popularity_key :: "search_result \<Rightarrow> rat" where
  "popularity_key x = (case sr_popularity x of None \<Rightarrow> 0 | Some p \<Rightarrow> p)"

definition best_match :: "search_result list \<Rightarrow> error + search_result" where
  "best_match results = py_first (py_sorted_reverse popularity_key results)"

text \<open>\<^verbatim>\<open>[g["name"] for g in gs]\<close>\<close>

fun genre_names :: "genre_entry list \<Rightarrow> error + string list" where
  "genre_names [] = Inr []"
| "genre_names (g # gs) =
     (case g_name g of
        None \<Rightarrow> Inl KeyError
      | Some n \<Rightarrow> (case genre_names gs of Inl e \<Rightarrow> Inl e | Inr ns \<Rightarrow> Inr (n # ns)))"

text \<open>\<^verbatim>\<open>[c["name"] for c in cs]\<close>\<close>

fun cast_names :: "cast_member list \<Rightarrow> error + string list" where
  "cast_names [] = Inr []"
| "cast_names (c # cs) =
     (case cm_name c of
        None \<Rightarrow> Inl KeyError
      | Some n \<Rightarrow> (case cast_names cs of Inl e \<Rightarrow> Inl e | Inr ns \<Rightarrow> Inr (n # ns)))"

text \<open>\<^verbatim>\<open>[c["name"] for c in cs if c["job"] == "Director"]\<close>\<close>

fun director_names :: "crew_member list \<Rightarrow> error + string list" where
  "director_names [] = Inr []"
| "director_names (c # cs) =
     (case cw_job c of
        None \<Rightarrow> Inl KeyError
      | Some j \<Rightarrow>
          if j = ''Director'' then
            (case cw_name c of
               None \<Rightarrow> Inl KeyError
             | Some n \<Rightarrow> (case director_names cs of Inl e \<Rightarrow> Inl e | Inr ns \<Rightarrow> Inr (n # ns)))
          else director_names cs)"

text \<open>The dictionary literal of lines 32 to 41.\<close>

definition make_movie_info :: "details \<Rightarrow> error + movie_info" where
  "make_movie_info details =
     (case genre_names (case d_genres details of None \<Rightarrow> [] | Some gs \<Rightarrow> gs) of
        Inl e \<Rightarrow> Inl e
      | Inr genres \<Rightarrow>
     (case cast_names (take 5
             (case d_credits details of
                None \<Rightarrow> []
              | Some cr \<Rightarrow> (case cr_cast cr of None \<Rightarrow> [] | Some cs \<Rightarrow> cs))) of
        Inl e \<Rightarrow> Inl e
      | Inr cast_list \<Rightarrow>
     (case director_names
             (case d_credits details of
                None \<Rightarrow> []
              | Some cr \<Rightarrow> (case cr_crew cr of None \<Rightarrow> [] | Some cs \<Rightarrow> cs)) of
        Inl e \<Rightarrow> Inl e
      | Inr directors \<Rightarrow>
          Inr \<lparr> title = d_title details,
                genre = Some genres,
                year = Some (take 4 (case d_release_date details of None \<Rightarrow> [] | Some d \<Rightarrow> d)),
                cast = cast_list,
                director = directors,
                overview = (case d_overview details of
                              None \<Rightarrow> ''No description available.'' | Some t \<Rightarrow> t),
                rating = (case d_vote_average details of
                            None \<Rightarrow> NotAvailable | Some r \<Rightarrow> Rating r),
                similar = (case d_similar details of
                             None \<Rightarrow> []
                           | Some page \<Rightarrow> (case cp_results page of None \<Rightarrow> [] | Some cs \<Rightarrow> cs)) \<rparr>)))"

text \<open>
  The result is \<open>Inr None\<close> for Python's \<^verbatim>\<open>(None, None)\<close>, \<open>Inr (Some (info, id))\<close> for the
  dictionary and the id, and \<open>Inl e\<close> when an exception leaves the function: the two
  requests are inside \<^verbatim>\<open>try\<close>, the reads of the responses are not.
\<close>

definition fetch_movie_data_from_api :: "world \<Rightarrow> string \<Rightarrow> error + (movie_info \<times> int) option" where
  "fetch_movie_data_from_api w movie_title =
     (case get_search w movie_title of
        Inl e \<Rightarrow> Inr None
      | Inr response \<Rightarrow>
          (case sr_results response of
             None \<Rightarrow> Inl KeyError
           | Some results \<Rightarrow>
               if results = [] then Inr None
               else
                 (case best_match results of
                    Inl e \<Rightarrow> Inl e
                  | Inr bm \<Rightarrow>
                      (case sr_id bm of
                         None \<Rightarrow> Inl KeyError
                       | Some movie_id \<Rightarrow>
                           (case get_details w movie_id of
                              Inl e \<Rightarrow> Inr None
                            | Inr details \<Rightarrow>
                                (case make_movie_info details of
                                   Inl e \<Rightarrow> Inl e
                                 | Inr info \<Rightarrow> Inr (Some (info, movie_id))))))))"

section \<open>fetch\_movie\_collection\<close>

text \<open>
  \<^verbatim>\<open>[item['title'] for item in parts
     if 'release_date' in item and item['release_date'][:4].isdigit()]\<close>
\<close>

fun part_titles :: "part list \<Rightarrow> error + string list" where
  "part_titles [] = Inr []"
| "part_titles (item # items) =
     (if (case p_release_date item of None \<Rightarrow> False | Some d \<Rightarrow> py_isdigit (take 4 d))
      then
        (case p_title item of
           None \<Rightarrow> Inl KeyError
         | Some t \<Rightarrow> (case part_titles items of Inl e \<Rightarrow> Inl e | Inr ts \<Rightarrow> Inr (t # ts)))
      else part_titles items)"

text \<open>
  The collection id is falsy when it is absent or 0; the function then returns
  \<^verbatim>\<open>([], None)\<close>.
\<close>

definition fetch_movie_collection :: "world \<Rightarrow> int \<Rightarrow> error + (string list \<times> int option)" where
  "fetch_movie_collection w movie_id =
     (case get_movie w movie_id of
        Inl e \<Rightarrow> Inr ([], None)
      | Inr details \<Rightarrow>
          (case (case d_belongs_to_collection details of None \<Rightarrow> None | Some c \<Rightarrow> cl_id c) of
             None \<Rightarrow> Inr ([], None)
           | Some collection_id \<Rightarrow>
               if collection_id = 0 then Inr ([], None)
               else
                 (case get_collection w collection_id of
                    Inl e \<Rightarrow> Inr ([], Some collection_id)
                  | Inr coll \<Rightarrow>
                      (case part_titles (case cl_parts coll of None \<Rightarrow> [] | Some ps \<Rightarrow> ps) of
                         Inl e \<Rightarrow> Inl e
                       | Inr ts \<Rightarrow> Inr (ts, Some collection_id)))))"

section \<open>fetch\_poster\<close>

definition fetch_poster :: "world \<Rightarrow> string \<Rightarrow> error + string" where
  "fetch_poster w movie_title =
     (case get_search w movie_title of
        Inl e \<Rightarrow> Inr ''https://via.placeholder.com/300x450?text=Error''
      | Inr response \<Rightarrow>
          (case sr_results response of
             None \<Rightarrow> Inl KeyError
           | Some results \<Rightarrow>
               (case results of
                  [] \<Rightarrow> Inr ''https://via.placeholder.com/300x450?text=No+Poster''
                | r # _ \<Rightarrow>
                    (case sr_poster_path r of
                       None \<Rightarrow> Inr ''https://via.placeholder.com/300x450?text=No+Poster''
                     | Some path \<Rightarrow>
                         if path = [] then Inr ''https://via.placeholder.com/300x450?text=No+Poster''
                         else Inr (''https://image.tmdb.org/t/p/w500'' @ path)))))"

section \<open>recommend\<close>

text \<open>
  A recommendation is the tuple (title, poster URL, justification). The cascade carries
  the list \<^verbatim>\<open>recommendations\<close> and the set \<^verbatim>\<open>used_titles\<close>.
\<close>

type_synonym recommendation = "string \<times> string \<times> string"

type_synonym cascade_state = "recommendation list \<times> string set"

text \<open>
  The second component of what recommend returns: the dictionary of the resolved movie, or
  the title-cased input when no movie was resolved.
\<close>

datatype resolved = Resolved movie_info | Unresolved string

text \<open>
  The loop over \<^verbatim>\<open>sequels\<close> (lines 86 to 92). \<^verbatim>\<open>movie_info['title'].lower()\<close> raises
  AttributeError when the title is None.
\<close>

definition sequel_body :: "world \<Rightarrow> string option \<Rightarrow> string \<Rightarrow> cascade_state \<Rightarrow> error + cascade_state" where
  "sequel_body w info_title t st =
     (case info_title of
        None \<Rightarrow> Inl AttributeError
      | Some mt \<Rightarrow>
          if py_lower t \<noteq> py_lower mt then
            (case fetch_poster w t of
               Inl e \<Rightarrow> Inl e
             | Inr poster \<Rightarrow>
                 Inr (fst st @ [(t, poster, ''From the same series/collection'')],
                      insert t (snd st)))
          else Inr st)"

fun sequel_loop :: "world \<Rightarrow> string option \<Rightarrow> string list \<Rightarrow> cascade_state \<Rightarrow> error + cascade_state" where
  "sequel_loop w info_title [] st = Inr st"
| "sequel_loop w info_title (t # ts) st =
     (case sequel_body w info_title t st of
        Inl e \<Rightarrow> Inl e
      | Inr st' \<Rightarrow> if length (fst st') \<ge> 5 then Inr st' else sequel_loop w info_title ts st')"

text \<open>
  \<^verbatim>\<open>sorted(movie_info['similar'], key=lambda x: x.get("release_date", "1900"), reverse=True)\<close>
\<close>

definition date_key :: "candidate \<Rightarrow> string" where
  "date_key x = (case c_release_date x of None \<Rightarrow> ''1900'' | Some d \<Rightarrow> d)"

definition sorted_similars :: "candidate list \<Rightarrow> candidate list" where
  "sorted_similars cs = py_sorted_reverse date_key cs"

text \<open>
  The genre lookup of a candidate (lines 108 to 113): the read of \<^verbatim>\<open>movie['id']\<close> is
  outside \<^verbatim>\<open>try\<close>, the request and the comprehension over the genres are inside.
\<close>

definition candidate_genres :: "world \<Rightarrow> int \<Rightarrow> error + string list" where
  "candidate_genres w cid =
     (case get_movie w cid of
        Inl e \<Rightarrow> Inl e
      | Inr genre_resp \<Rightarrow> genre_names (case d_genres genre_resp of None \<Rightarrow> [] | Some gs \<Rightarrow> gs))"

text \<open>
  One pass of the loop over \<^verbatim>\<open>sorted_similars\<close> (lines 101 to 118): \<open>Inr None\<close> is
  \<^verbatim>\<open>continue\<close>, \<open>Inr (Some st)\<close> the state after the two updates.
\<close>

definition similar_body :: "world \<Rightarrow> string list \<Rightarrow> int \<Rightarrow> candidate \<Rightarrow> cascade_state \<Rightarrow> error + cascade_state option" where
  "similar_body w original_genres original_year movie st =
     (case c_title movie of
        None \<Rightarrow> Inr None
      | Some t \<Rightarrow>
     (case c_release_date movie of
        None \<Rightarrow> Inr None
      | Some release_date \<Rightarrow>
          if t = [] \<or> release_date = [] \<or> t \<in> snd st then Inr None
          else
            (case py_int (take 4 release_date) of
               Inl e \<Rightarrow> Inl e
             | Inr y \<Rightarrow>
                 if y < original_year - 2 then Inr None
                 else
                   (case c_id movie of
                      None \<Rightarrow> Inl KeyError
                    | Some cid \<Rightarrow>
                        (case candidate_genres w cid of
                           Inl e \<Rightarrow> Inr None
                         | Inr movie_genres \<Rightarrow>
                             if set original_genres \<inter> set movie_genres = {} then Inr None
                             else
                               (case fetch_poster w t of
                                  Inl e \<Rightarrow> Inl e
                                | Inr poster \<Rightarrow>
                                    Inr (Some
                                      (fst st @ [(t, poster, ''Similar movie based on genre and recency'')],
                                       insert t (snd st)))))))))"

fun similar_loop :: "world \<Rightarrow> string list \<Rightarrow> int \<Rightarrow> candidate list \<Rightarrow> cascade_state \<Rightarrow> error + cascade_state" where
  "similar_loop w original_genres original_year [] st = Inr st"
| "similar_loop w original_genres original_year (movie # movies) st =
     (case similar_body w original_genres original_year movie st of
        Inl e \<Rightarrow> Inl e
      | Inr None \<Rightarrow> similar_loop w original_genres original_year movies st
      | Inr (Some st') \<Rightarrow>
          if length (fst st') \<ge> 5 then Inr st'
          else similar_loop w original_genres original_year movies st')"

text \<open>
  The two nested loops that fill \<^verbatim>\<open>genre_ids\<close> (lines 126 to 129). The ids are kept as
  integers; the code joins their decimal forms into the URL, which determines them.
\<close>

fun genre_ids_for :: "genre_entry list \<Rightarrow> string \<Rightarrow> error + int list" where
  "genre_ids_for [] g = Inr []"
| "genre_ids_for (g_map # rest) g =
     (case g_name g_map of
        None \<Rightarrow> Inl KeyError
      | Some n \<Rightarrow>
          if py_lower n = py_lower g then
            (case g_id g_map of
               None \<Rightarrow> Inl KeyError
             | Some i \<Rightarrow> (case genre_ids_for rest g of Inl e \<Rightarrow> Inl e | Inr is \<Rightarrow> Inr (i # is)))
          else genre_ids_for rest g)"

fun genre_ids_of :: "genre_entry list \<Rightarrow> string list \<Rightarrow> error + int list" where
  "genre_ids_of vocabulary [] = Inr []"
| "genre_ids_of vocabulary (g # gs) =
     (case genre_ids_for vocabulary g of
        Inl e \<Rightarrow> Inl e
      | Inr is \<Rightarrow> (case genre_ids_of vocabulary gs of Inl e \<Rightarrow> Inl e | Inr js \<Rightarrow> Inr (is @ js)))"

text \<open>The loop over the discovery results (lines 137 to 144).\<close>

definition fallback_body :: "world \<Rightarrow> candidate \<Rightarrow> cascade_state \<Rightarrow> error + cascade_state" where
  "fallback_body w movie st =
     (case c_title movie of
        None \<Rightarrow> Inr st
      | Some t \<Rightarrow>
          if t \<noteq> [] \<and> t \<notin> snd st then
            (case fetch_poster w t of
               Inl e \<Rightarrow> Inl e
             | Inr poster \<Rightarrow>
                 Inr (fst st @ [(t, poster, ''Genre-based fallback recommendation'')],
                      insert t (snd st)))
          else Inr st)"

fun fallback_loop :: "world \<Rightarrow> candidate list \<Rightarrow> cascade_state \<Rightarrow> error + cascade_state" where
  "fallback_loop w [] st = Inr st"
| "fallback_loop w (movie # movies) st =
     (case fallback_body w movie st of
        Inl e \<Rightarrow> Inl e
      | Inr st' \<Rightarrow> if length (fst st') \<ge> 5 then Inr st' else fallback_loop w movies st')"

text \<open>
  The third stage (lines 123 to 144). Neither request is inside \<^verbatim>\<open>try\<close>.
\<close>

definition fallback_stage :: "world \<Rightarrow> string list \<Rightarrow> int \<Rightarrow> cascade_state \<Rightarrow> error + cascade_state" where
  "fallback_stage w original_genres original_year st =
     (case get_genre_list w of
        Inl e \<Rightarrow> Inl e
      | Inr genre_data \<Rightarrow>
          (case genre_ids_of (case gl_genres genre_data of None \<Rightarrow> [] | Some gs \<Rightarrow> gs)
                  (set_order w original_genres) of
             Inl e \<Rightarrow> Inl e
           | Inr genre_ids \<Rightarrow>
               if genre_ids = [] then Inr st
               else
                 (case get_discover w genre_ids original_year of
                    Inl e \<Rightarrow> Inl e
                  | Inr fallback_resp \<Rightarrow>
                      fallback_loop w
                        (case cp_results fallback_resp of None \<Rightarrow> [] | Some rs \<Rightarrow> rs) st)))"

definition not_found :: recommendation where
  "not_found = (''Movie not found'', ''https://via.placeholder.com/300x450?text=Not+Found'', [])"

text \<open>
  Lines 82 and 83. \<^verbatim>\<open>original_genres\<close> is a Python set; it is kept as the list it is built
  from, its members are \<open>set (original_genres info)\<close>.
\<close>

definition original_genres :: "movie_info \<Rightarrow> string list" where
  "original_genres info = (case genre info of None \<Rightarrow> [] | Some gs \<Rightarrow> gs)"

definition original_year :: "movie_info \<Rightarrow> error + int" where
  "original_year info = py_int (case year info of None \<Rightarrow> ''2000'' | Some y \<Rightarrow> y)"

text \<open>
  The cascade of recommend after the movie is resolved (lines 80 to 146), and recommend.
\<close>

definition cascade :: "world \<Rightarrow> movie_info \<Rightarrow> int \<Rightarrow> error + recommendation list" where
  "cascade w info movie_id =
     (case original_year info of
        Inl e \<Rightarrow> Inl e
      | Inr oy \<Rightarrow>
     (case fetch_movie_collection w movie_id of
        Inl e \<Rightarrow> Inl e
      | Inr (sequels, collection_id) \<Rightarrow>
     (case sequel_loop w (title info) sequels ([], {}) of
        Inl e \<Rightarrow> Inl e
      | Inr st1 \<Rightarrow>
     (case (if length (fst st1) < 5
            then similar_loop w (original_genres info) oy (sorted_similars (similar info)) st1
            else Inr st1) of
        Inl e \<Rightarrow> Inl e
      | Inr st2 \<Rightarrow>
     (case (if length (fst st2) < 5
            then fallback_stage w (original_genres info) oy st2
            else Inr st2) of
        Inl e \<Rightarrow> Inl e
      | Inr st3 \<Rightarrow> Inr (fst st3))))))"

definition recommend :: "world \<Rightarrow> string \<Rightarrow> error + (recommendation list \<times> resolved)" where
  "recommend w movie_title =
     (case fetch_movie_data_from_api w movie_title of
        Inl e \<Rightarrow> Inl e
      | Inr None \<Rightarrow> Inr ([not_found], Unresolved (py_title movie_title))
      | Inr (Some (info, movie_id)) \<Rightarrow>
          (case cascade w info movie_id of
             Inl e \<Rightarrow> Inl e
           | Inr recommendations \<Rightarrow> Inr (recommendations, Resolved info)))"

section \<open>What the stages supply\<close>

text \<open>
  The accepted candidates of the specification: the three stages with the same loop
  bodies, run over all their candidates, without the stop at five entries and without the
  test that guards the second and the third stage. These definitions follow the
  specification, not the code; they are what the length of the returned list is compared
  with.
\<close>

fun sequel_supply :: "world \<Rightarrow> string option \<Rightarrow> string list \<Rightarrow> cascade_state \<Rightarrow> error + cascade_state" where
  "sequel_supply w info_title [] st = Inr st"
| "sequel_supply w info_title (t # ts) st =
     (case sequel_body w info_title t st of
        Inl e \<Rightarrow> Inl e
      | Inr st' \<Rightarrow> sequel_supply w info_title ts st')"

fun similar_supply :: "world \<Rightarrow> string list \<Rightarrow> int \<Rightarrow> candidate list \<Rightarrow> cascade_state \<Rightarrow> error + cascade_state" where
  "similar_supply w og oy [] st = Inr st"
| "similar_supply w og oy (movie # movies) st =
     (case similar_body w og oy movie st of
        Inl e \<Rightarrow> Inl e
      | Inr None \<Rightarrow> similar_supply w og oy movies st
      | Inr (Some st') \<Rightarrow> similar_supply w og oy movies st')"

fun fallback_supply :: "world \<Rightarrow> candidate list \<Rightarrow> cascade_state \<Rightarrow> error + cascade_state" where
  "fallback_supply w [] st = Inr st"
| "fallback_supply w (movie # movies) st =
     (case fallback_body w movie st of
        Inl e \<Rightarrow> Inl e
      | Inr st' \<Rightarrow> fallback_supply w movies st')"

definition fallback_stage_supply :: "world \<Rightarrow> string list \<Rightarrow> int \<Rightarrow> cascade_state \<Rightarrow> error + cascade_state" where
  "fallback_stage_supply w og oy st =
     (case get_genre_list w of
        Inl e \<Rightarrow> Inl e
      | Inr genre_data \<Rightarrow>
          (case genre_ids_of (case gl_genres genre_data of None \<Rightarrow> [] | Some gs \<Rightarrow> gs)
                  (set_order w og) of
             Inl e \<Rightarrow> Inl e
           | Inr genre_ids \<Rightarrow>
               if genre_ids = [] then Inr st
               else
                 (case get_discover w genre_ids oy of
                    Inl e \<Rightarrow> Inl e
                  | Inr fallback_resp \<Rightarrow>
                      fallback_supply w
                        (case cp_results fallback_resp of None \<Rightarrow> [] | Some rs \<Rightarrow> rs) st)))"

definition supplied :: "world \<Rightarrow> movie_info \<Rightarrow> int \<Rightarrow> error + recommendation list" where
  "supplied w info movie_id =
     (case original_year info of
        Inl e \<Rightarrow> Inl e
      | Inr oy \<Rightarrow>
     (case fetch_movie_collection w movie_id of
        Inl e \<Rightarrow> Inl e
      | Inr (sequels, collection_id) \<Rightarrow>
     (case sequel_supply w (title info) sequels ([], {}) of
        Inl e \<Rightarrow> Inl e
      | Inr st1 \<Rightarrow>
     (case similar_supply w (original_genres info) oy (sorted_similars (similar info)) st1 of
        Inl e \<Rightarrow> Inl e
      | Inr st2 \<Rightarrow>
     (case fallback_stage_supply w (original_genres info) oy st2 of
        Inl e \<Rightarrow> Inl e
      | Inr st3 \<Rightarrow> Inr (fst st3))))))"

section \<open>The order and the filter of the specification\<close>

text \<open>
  The sort key as the specification words it: a candidate whose date is empty or missing
  is ordered as if its date were "1900".
\<close>

definition spec_date_key :: "candidate \<Rightarrow> string" where
  "spec_date_key x =
     (case c_release_date x of None \<Rightarrow> ''1900'' | Some d \<Rightarrow> if d = [] then ''1900'' else d)"

definition dateless :: "candidate \<Rightarrow> bool" where
  "dateless x = (case c_release_date x of None \<Rightarrow> True | Some d \<Rightarrow> d = [])"

text \<open>Candidates without a date come last: none of them stands before a dated one.\<close>

fun dateless_last :: "candidate list \<Rightarrow> bool" where
  "dateless_last [] = True"
| "dateless_last (x # xs) = (if dateless x then list_all dateless xs else dateless_last xs)"

text \<open>A list in descending order.\<close>

definition descending :: "('a::linorder) list \<Rightarrow> bool" where
  "descending xs = sorted (rev xs)"

text \<open>
  The members of a collection that the specification keeps: the release date is present
  and its first four characters (all of it when it is shorter) are digits, at least one.
\<close>

definition dated_part :: "part \<Rightarrow> bool" where
  "dated_part p =
     (case p_release_date p of
        None \<Rightarrow> False
      | Some d \<Rightarrow> take 4 d \<noteq> [] \<and> (\<forall>c \<in> set (take 4 d). is_digit c))"

section \<open>Example services\<close>

text \<open>A service that answers no request.\<close>

definition offline :: world where
  "offline =
     \<lparr> get_search = (\<lambda>_. Inl RequestException),
       get_details = (\<lambda>_. Inl RequestException),
       get_movie = (\<lambda>_. Inl RequestException),
       get_collection = (\<lambda>_. Inl RequestException),
       get_genre_list = Inl RequestException,
       get_discover = (\<lambda>_ _. Inl RequestException),
       set_order = remdups \<rparr>"

definition no_details :: details where
  "no_details =
     \<lparr> d_title = None, d_genres = None, d_release_date = None, d_credits = None,
       d_overview = None, d_vote_average = None, d_similar = None,
       d_belongs_to_collection = None \<rparr>"

definition hit :: "int \<Rightarrow> rat \<Rightarrow> string \<Rightarrow> search_result" where
  "hit i p path = \<lparr> sr_id = Some i, sr_popularity = Some p, sr_poster_path = Some path \<rparr>"

definition found :: "search_result list \<Rightarrow> error + search_response" where
  "found rs = Inr \<lparr> sr_results = Some rs \<rparr>"

definition entry :: "int \<Rightarrow> string \<Rightarrow> string \<Rightarrow> candidate" where
  "entry i t d = \<lparr> c_id = Some i, c_title = Some t, c_release_date = Some d \<rparr>"

definition genre_of :: "int \<Rightarrow> string \<Rightarrow> genre_entry" where
  "genre_of i n = \<lparr> g_id = Some i, g_name = Some n \<rparr>"

text \<open>
  The example of the specification: Inception (2010, Action and Science Fiction), no
  collection, the similar titles Interstellar (2014, Science Fiction) and Old Movie
  (1990, Drama); the discovery list holds Inception itself, Interstellar and Tenet.
\<close>

definition inception_details :: details where
  "inception_details =
     no_details
       \<lparr> d_title := Some ''Inception'',
         d_genres := Some [genre_of 28 ''Action'', genre_of 878 ''Science Fiction''],
         d_release_date := Some ''2010-07-15'',
         d_similar := Some \<lparr> cp_results = Some
           [entry 11 ''Old Movie'' ''1990-01-01'', entry 157336 ''Interstellar'' ''2014-11-05''] \<rparr> \<rparr>"

definition inception_world :: world where
  "inception_world =
     offline
       \<lparr> get_search := (\<lambda>q.
           if q = ''inception'' then found [hit 64956 3 ''/cobol.jpg'', hit 27205 80 ''/inc.jpg'']
           else if q = ''Interstellar'' then found [hit 157336 90 ''/int.jpg'']
           else if q = ''Inception'' then found [hit 27205 80 ''/inc.jpg'']
           else found []),
         get_details := (\<lambda>i. if i = 27205 then Inr inception_details else Inl RequestException),
         get_movie := (\<lambda>i.
           if i = 27205 then Inr inception_details
           else if i = 157336 then
             Inr (no_details \<lparr> d_genres := Some [genre_of 12 ''Adventure'', genre_of 878 ''Science Fiction''] \<rparr>)
           else if i = 11 then Inr (no_details \<lparr> d_genres := Some [genre_of 18 ''Drama''] \<rparr>)
           else Inl RequestException),
         get_genre_list := Inr \<lparr> gl_genres = Some
           [genre_of 28 ''Action'', genre_of 18 ''Drama'', genre_of 878 ''Science Fiction''] \<rparr>,
         get_discover := (\<lambda>ids y.
           if ids = [28, 878] \<and> y = 2010 then
             Inr \<lparr> cp_results = Some
               [entry 27205 ''Inception'' ''2010-07-15'', entry 157336 ''Interstellar'' ''2014-11-05'',
                entry 577922 ''Tenet'' ''2020-08-22''] \<rparr>
           else Inl RequestException) \<rparr>"

text \<open>
  A film of a collection that lists two films named Halloween, one member with an empty
  release date and one without the field; the discovery list starts with the film itself.
\<close>

definition halloween_details :: details where
  "halloween_details =
     no_details
       \<lparr> d_title := Some ''Halloween II'',
         d_genres := Some [genre_of 27 ''Horror''],
         d_release_date := Some ''1981-10-30'',
         d_belongs_to_collection := Some \<lparr> cl_id = Some 91361 \<rparr> \<rparr>"

definition halloween_parts :: "part list" where
  "halloween_parts =
     [\<lparr> p_title = Some ''Halloween'', p_release_date = Some ''1978-10-25'' \<rparr>,
      \<lparr> p_title = Some ''Halloween II'', p_release_date = Some ''1981-10-30'' \<rparr>,
      \<lparr> p_title = Some ''Halloween Returns'', p_release_date = Some [] \<rparr>,
      \<lparr> p_title = Some ''Halloween'', p_release_date = Some ''2018-10-18'' \<rparr>,
      \<lparr> p_title = None, p_release_date = None \<rparr>]"

definition halloween_world :: world where
  "halloween_world =
     offline
       \<lparr> get_search := (\<lambda>q.
           if q = ''halloween ii'' then found [hit 11281 20 ''/h2.jpg'']
           else if q = ''Halloween'' then found [hit 948 50 ''/h.jpg'']
           else found []),
         get_details := (\<lambda>i. if i = 11281 then Inr halloween_details else Inl RequestException),
         get_movie := (\<lambda>i. if i = 11281 then Inr halloween_details else Inl RequestException),
         get_collection := (\<lambda>i.
           if i = 91361 then Inr \<lparr> cl_parts = Some halloween_parts \<rparr> else Inl RequestException),
         get_genre_list := Inr \<lparr> gl_genres = Some [genre_of 27 ''Horror''] \<rparr>,
         get_discover := (\<lambda>ids y.
           if ids = [27] \<and> y = 1981 then
             Inr \<lparr> cp_results = Some
               [entry 11281 ''Halloween II'' ''1981-10-30'', entry 4232 ''Scream'' ''1996-12-20''] \<rparr>
           else Inl RequestException) \<rparr>"

text \<open>A film whose details carry the given release-date field and nothing else but a title.\<close>

definition undated_world :: "string option \<Rightarrow> world" where
  "undated_world release_date =
     offline
       \<lparr> get_search := (\<lambda>q. found [hit 5 1 ''/u.jpg'']),
         get_details := (\<lambda>i.
           Inr (no_details \<lparr> d_title := Some ''Untitled'', d_release_date := release_date \<rparr>)),
         get_movie := (\<lambda>i. Inr no_details),
         get_genre_list := Inr \<lparr> gl_genres = Some [] \<rparr> \<rparr>"

text \<open>What the code builds and returns for the title "inception" in \<open>inception_world\<close>.\<close>

definition inception_info :: movie_info where
  "inception_info =
     \<lparr> title = Some ''Inception'',
       genre = Some [''Action'', ''Science Fiction''],
       year = Some ''2010'',
       cast = [],
       director = [],
       overview = ''No description available.'',
       rating = NotAvailable,
       similar = [entry 11 ''Old Movie'' ''1990-01-01'', entry 157336 ''Interstellar'' ''2014-11-05''] \<rparr>"

definition inception_recs :: "recommendation list" where
  "inception_recs =
     [(''Interstellar'', ''https://image.tmdb.org/t/p/w500/int.jpg'',
       ''Similar movie based on genre and recency''),
      (''Inception'', ''https://image.tmdb.org/t/p/w500/inc.jpg'',
       ''Genre-based fallback recommendation''),
      (''Tenet'', ''https://via.placeholder.com/300x450?text=No+Poster'',
       ''Genre-based fallback recommendation'')]"

section \<open>Properties of the Python functions\<close>

lemma py_sorted_reverse_first:
  assumes "xs \<noteq> []"
  shows "\<exists>b rest ys zs. py_sorted_reverse k xs = b # rest \<and> xs = ys @ b # zs \<and>
           (\<forall>y \<in> set ys. k y < k b) \<and> (\<forall>z \<in> set zs. k z \<le> k b)"
proof -
  define s where "s = sort_key k (rev xs)"
  have s_ne: "s \<noteq> []"
    using assms unfolding s_def by (metis length_0_conv length_sort rev_is_Nil_conv)
  define b where "b = last s"
  have snoc: "s = butlast s @ [b]" using s_ne b_def by simp
  have b_in: "b \<in> set s" using s_ne b_def by simp
  have "sorted (map k s)" unfolding s_def by simp
  then have "sorted (map k (butlast s @ [b]))" using snoc by simp
  then have le_butlast: "\<forall>x \<in> set (butlast s). k x \<le> k b"
    by (simp add: sorted_append)
  have le: "k x \<le> k b" if "x \<in> set s" for x
  proof -
    have "x \<in> set (butlast s) \<or> x = b" using that snoc
      by (metis Un_iff empty_iff empty_set set_ConsD set_append)
    then show ?thesis using le_butlast by auto
  qed
  have set_s: "set s = set xs" unfolding s_def by simp
  let ?P = "\<lambda>y. k y = k b"
  have "filter ?P s = rev (filter ?P xs)"
    unfolding s_def by (simp add: sort_key_stable rev_filter)
  moreover have "filter ?P s = filter ?P (butlast s) @ [b]"
    by (subst snoc) simp
  ultimately have "rev (filter ?P xs) = filter ?P (butlast s) @ [b]" by simp
  then have "filter ?P xs = b # rev (filter ?P (butlast s))"
    by (metis rev_rev_ident rev_append rev.simps append_Nil append_Cons)
  then obtain ys zs where split: "xs = ys @ b # zs" "\<forall>y \<in> set ys. \<not> ?P y"
    by (auto simp: filter_eq_Cons_iff)
  have "py_sorted_reverse k xs = b # rev (butlast s)"
    unfolding py_sorted_reverse_def s_def[symmetric] by (subst snoc) simp
  moreover have "\<forall>y \<in> set ys. k y < k b"
    using split le set_s by (auto simp: less_le)
  moreover have "\<forall>z \<in> set zs. k z \<le> k b"
    using split le set_s by auto
  ultimately show ?thesis using split(1) by blast
qed

lemma py_sorted_reverse_mset: "mset (py_sorted_reverse k xs) = mset xs"
  by (simp add: py_sorted_reverse_def)

lemma py_sorted_reverse_descending: "descending (map k (py_sorted_reverse k xs))"
  by (simp add: py_sorted_reverse_def descending_def rev_map)

lemma py_sorted_reverse_stable:
  "filter (\<lambda>x. k x = v) (py_sorted_reverse k xs) = filter (\<lambda>x. k x = v) xs"
  by (simp add: py_sorted_reverse_def sort_key_stable flip: rev_filter)

section \<open>The title search\<close>

text \<open>
  Claim C8. On a non-empty result list the best match exists, is one of the results, no
  result is more popular than it, and every result that stands before it in the upstream
  order is strictly less popular: of the results with the maximal popularity it is the
  first. A result without a popularity counts as 0.
\<close>

theorem best_match_first_most_popular:
  assumes "results \<noteq> []"
  shows "\<exists>bm before after.
           best_match results = Inr bm \<and> results = before @ bm # after \<and>
           (\<forall>r \<in> set results. popularity_key r \<le> popularity_key bm) \<and>
           (\<forall>r \<in> set before. popularity_key r < popularity_key bm)"
proof -
  obtain b rest ys zs where
    s: "py_sorted_reverse popularity_key results = b # rest" and
    r: "results = ys @ b # zs" and
    lt: "\<forall>y \<in> set ys. popularity_key y < popularity_key b" and
    le: "\<forall>z \<in> set zs. popularity_key z \<le> popularity_key b"
    using py_sorted_reverse_first [OF assms, of popularity_key] by blast
  have "best_match results = Inr b"
    by (simp add: best_match_def py_first_def s)
  moreover have "\<forall>x \<in> set results. popularity_key x \<le> popularity_key b"
    using r lt le by auto
  ultimately show ?thesis using r lt by blast
qed

theorem best_match_first_most_popular_witness:
  "[hit 64956 3 ''/cobol.jpg'', hit 27205 80 ''/inc.jpg'', hit 1 80 ''/x.jpg''] \<noteq> [] \<and>
   best_match [hit 64956 3 ''/cobol.jpg'', hit 27205 80 ''/inc.jpg'', hit 1 80 ''/x.jpg'']
     = Inr (hit 27205 80 ''/inc.jpg'') \<and>
   (\<exists>bm before after.
     best_match [hit 64956 3 ''/cobol.jpg'', hit 27205 80 ''/inc.jpg'', hit 1 80 ''/x.jpg''] = Inr bm \<and>
     [hit 64956 3 ''/cobol.jpg'', hit 27205 80 ''/inc.jpg'', hit 1 80 ''/x.jpg''] = before @ bm # after \<and>
     (\<forall>r \<in> set [hit 64956 3 ''/cobol.jpg'', hit 27205 80 ''/inc.jpg'', hit 1 80 ''/x.jpg''].
        popularity_key r \<le> popularity_key bm) \<and>
     (\<forall>r \<in> set before. popularity_key r < popularity_key bm))"
proof -
  have ne: "[hit 64956 3 ''/cobol.jpg'', hit 27205 80 ''/inc.jpg'', hit 1 80 ''/x.jpg''] \<noteq> []"
    by simp
  have "best_match [hit 64956 3 ''/cobol.jpg'', hit 27205 80 ''/inc.jpg'', hit 1 80 ''/x.jpg'']
     = Inr (hit 27205 80 ''/inc.jpg'')"
    by code_simp
  then show ?thesis
    using ne best_match_first_most_popular [OF ne] by blast
qed

section \<open>No movie resolved\<close>






section \<open>The members of a collection\<close>

lemma dated_part_isdigit:
  "(case p_release_date p of None \<Rightarrow> False | Some d \<Rightarrow> py_isdigit (take 4 d)) = dated_part p"
  by (simp add: dated_part_def py_isdigit_def list_all_iff split: option.splits)

lemma part_titles_dated:
  assumes "\<forall>p \<in> set ps. dated_part p \<longrightarrow> p_title p \<noteq> None"
  shows "\<exists>ts. part_titles ps = Inr ts \<and> map Some ts = map p_title (filter dated_part ps)"
  using assms
proof (induction ps)
  case Nil
  then show ?case by simp
next
  case (Cons p ps)
  then obtain ts where ts: "part_titles ps = Inr ts"
      "map Some ts = map p_title (filter dated_part ps)"
    by auto
  show ?case
  proof (cases "dated_part p")
    case True
    then obtain t where "p_title p = Some t" using Cons.prems by auto
    then show ?thesis using True ts by (simp add: dated_part_isdigit)
  next
    case False
    then show ?thesis using ts by (simp add: dated_part_isdigit)
  qed
qed

text \<open>
  Claim C9. For a movie that belongs to a collection (its record names a collection with
  a non-zero id, and both requests succeed), fetch\_movie\_collection returns, with the
  collection id, exactly the titles of the members whose release date is present and
  starts with digits (its first four characters), in upstream order. The members so
  selected are required to carry a title: reading the title of one that does not raises
  KeyError.
\<close>

theorem fetch_movie_collection_titles:
  assumes "get_movie w movie_id = Inr details"
    and "d_belongs_to_collection details = Some c"
    and "cl_id c = Some collection_id" and "collection_id \<noteq> 0"
    and "get_collection w collection_id = Inr coll"
    and "cl_parts coll = Some ps"
    and "\<forall>p \<in> set ps. dated_part p \<longrightarrow> p_title p \<noteq> None"
  shows "\<exists>ts. fetch_movie_collection w movie_id = Inr (ts, Some collection_id) \<and>
              map Some ts = map p_title (filter dated_part ps)"
proof -
  obtain ts where "part_titles ps = Inr ts"
      "map Some ts = map p_title (filter dated_part ps)"
    using part_titles_dated assms(7) by blast
  then show ?thesis
    using assms(1-6) by (simp add: fetch_movie_collection_def)
qed

theorem fetch_movie_collection_titles_witness:
  "get_movie halloween_world 11281 = Inr halloween_details \<and>
   d_belongs_to_collection halloween_details = Some \<lparr> cl_id = Some 91361 \<rparr> \<and>
   get_collection halloween_world 91361 = Inr \<lparr> cl_parts = Some halloween_parts \<rparr> \<and>
   map p_title (filter dated_part halloween_parts)
     = [Some ''Halloween'', Some ''Halloween II'', Some ''Halloween''] \<and>
   fetch_movie_collection halloween_world 11281
     = Inr ([''Halloween'', ''Halloween II'', ''Halloween''], Some 91361) \<and>
   (\<exists>ts. fetch_movie_collection halloween_world 11281 = Inr (ts, Some 91361) \<and>
      map Some ts = map p_title (filter dated_part halloween_parts))"
proof -
  have m: "get_movie halloween_world 11281 = Inr halloween_details"
    by (simp add: halloween_world_def)
  have b: "d_belongs_to_collection halloween_details = Some \<lparr> cl_id = Some 91361 \<rparr>"
    by (simp add: halloween_details_def no_details_def)
  have i: "cl_id \<lparr> cl_id = Some 91361 \<rparr> = Some 91361" by simp
  have z: "(91361 :: int) \<noteq> 0" by simp
  have g: "get_collection halloween_world 91361 = Inr \<lparr> cl_parts = Some halloween_parts \<rparr>"
    by (simp add: halloween_world_def)
  have p: "cl_parts \<lparr> cl_parts = Some halloween_parts \<rparr> = Some halloween_parts" by simp
  have t: "\<forall>p \<in> set halloween_parts. dated_part p \<longrightarrow> p_title p \<noteq> None"
    by (simp add: halloween_parts_def dated_part_def)
  have v: "fetch_movie_collection halloween_world 11281
             = Inr ([''Halloween'', ''Halloween II'', ''Halloween''], Some 91361)"
    by code_simp
  have f: "map p_title (filter dated_part halloween_parts)
             = [Some ''Halloween'', Some ''Halloween II'', Some ''Halloween'']"
    by (simp add: halloween_parts_def dated_part_def is_digit_def)
  show ?thesis
    using m b g f v fetch_movie_collection_titles [OF m b i z g p t] by simp
qed

section \<open>Failures inside the cascade\<close>

text \<open>The requests that are inside \<^verbatim>\<open>try\<close>: a failure leaves an empty contribution.\<close>

lemma fetch_movie_collection_request_failure:
  "get_movie w movie_id = Inl e \<Longrightarrow> fetch_movie_collection w movie_id = Inr ([], None)"
  by (simp add: fetch_movie_collection_def)

lemma fetch_poster_request_failure:
  "get_search w t = Inl e \<Longrightarrow>
   fetch_poster w t = Inr ''https://via.placeholder.com/300x450?text=Error''"
  by (simp add: fetch_poster_def)

lemma similar_body_genre_failure:
  assumes "c_title movie = Some t" and "c_release_date movie = Some d"
    and "t \<noteq> []" and "d \<noteq> []" and "t \<notin> snd st"
    and "py_int (take 4 d) = Inr y" and "c_id movie = Some cid"
    and "candidate_genres w cid = Inl e"
  shows "similar_body w og oy movie st = Inr None"
  using assms by (simp add: similar_body_def)

text \<open>
  Claim C1, at two inputs where the code does not do what the claim says. Inception
  resolves (to id 27205) and the first two stages give one entry. When the request for the
  genre vocabulary raises, or when the discovery request raises, the exception leaves
  recommend: the two requests of the third stage are not inside \<^verbatim>\<open>try\<close>.
\<close>

theorem stage3_request_failure_escapes:
  "map_sum id (map_option snd)
     (fetch_movie_data_from_api (inception_world \<lparr> get_genre_list := Inl RequestException \<rparr>)
        ''inception'') = Inr (Some 27205) \<and>
   recommend (inception_world \<lparr> get_genre_list := Inl RequestException \<rparr>) ''inception''
     = Inl RequestException \<and>
   map_sum id (map_option snd)
     (fetch_movie_data_from_api (inception_world \<lparr> get_discover := (\<lambda>ids y. Inl RequestException) \<rparr>)
        ''inception'') = Inr (Some 27205) \<and>
   recommend (inception_world \<lparr> get_discover := (\<lambda>ids y. Inl RequestException) \<rparr>) ''inception''
     = Inl RequestException"
  by code_simp

section \<open>Titles of the returned list\<close>

text \<open>
  Claim C2, at an input where the code does not do what the claim says. Halloween II
  resolves; its collection lists two films named Halloween, which the first stage
  appends both (it adds to \<^verbatim>\<open>used_titles\<close> but does not look into it), and the discovery
  list names Halloween II itself, which the third stage appends (only the first stage
  compares with the title of the resolved movie).
\<close>

theorem duplicate_and_own_title_returned:
  "map_sum id (\<lambda>(recs, r). (recs, case r of Resolved info \<Rightarrow> title info | Unresolved s \<Rightarrow> None))
     (recommend halloween_world ''halloween ii'')
   = Inr ([(''Halloween'', ''https://image.tmdb.org/t/p/w500/h.jpg'', ''From the same series/collection''),
           (''Halloween'', ''https://image.tmdb.org/t/p/w500/h.jpg'', ''From the same series/collection''),
           (''Halloween II'', ''https://via.placeholder.com/300x450?text=No+Poster'',
            ''Genre-based fallback recommendation''),
           (''Scream'', ''https://via.placeholder.com/300x450?text=No+Poster'',
            ''Genre-based fallback recommendation'')],
          Some ''Halloween II'')"
  by code_simp

section \<open>The year of the resolved movie\<close>

text \<open>
  The dictionary of a resolved movie always has the key \<^verbatim>\<open>year\<close>, so the default "2000"
  of \<^verbatim>\<open>movie_info.get("year", "2000")\<close> is never taken.
\<close>

lemma resolved_year_present:
  assumes "fetch_movie_data_from_api w movie_title = Inr (Some (info, movie_id))"
  shows "\<exists>y. year info = Some y \<and> original_year info = py_int y"
proof -
  obtain details where "make_movie_info details = Inr info"
    using assms
    by (auto simp: fetch_movie_data_from_api_def split: sum.splits option.splits if_splits)
  then obtain y where "year info = Some y"
    by (auto simp: make_movie_info_def split: sum.splits)
  then show ?thesis by (simp add: original_year_def)
qed

lemma unparseable_year_aborts:
  assumes "fetch_movie_data_from_api w movie_title = Inr (Some (info, movie_id))"
    and "year info = Some y" and "py_int y = Inl e"
  shows "recommend w movie_title = Inl e"
  using assms by (simp add: recommend_def cascade_def original_year_def)

text \<open>
  Claim C4, at two inputs where the code does not do what the claim says. The movie
  resolves; its details have no release date, or an empty one. The year of the dictionary
  is then the empty string, \<^verbatim>\<open>int("")\<close> raises ValueError and recommend does not return.
\<close>

theorem missing_year_aborts:
  "map_sum id (map_option (year \<circ> fst))
     (fetch_movie_data_from_api (undated_world None) ''untitled'') = Inr (Some (Some '''')) \<and>
   recommend (undated_world None) ''untitled'' = Inl ValueError \<and>
   map_sum id (map_option (year \<circ> fst))
     (fetch_movie_data_from_api (undated_world (Some '''')) ''untitled'') = Inr (Some (Some '''')) \<and>
   recommend (undated_world (Some '''')) ''untitled'' = Inl ValueError"
  by code_simp

section \<open>The loops of the cascade\<close>

text \<open>What one pass of each loop can do to the state.\<close>

lemma sequel_body_cases:
  assumes "sequel_body w info_title t st = Inr st'"
  shows "st' = st \<or>
         (\<exists>p. st' = (fst st @ [(t, p, ''From the same series/collection'')], insert t (snd st)))"
  using assms
  by (auto simp: sequel_body_def split: option.splits if_splits sum.splits)

lemma fallback_body_cases:
  assumes "fallback_body w movie st = Inr st'"
  shows "st' = st \<or>
         (\<exists>t p. st' = (fst st @ [(t, p, ''Genre-based fallback recommendation'')], insert t (snd st)))"
  using assms
  by (auto simp: fallback_body_def split: option.splits if_splits sum.splits)

lemma similar_body_accepts:
  assumes "similar_body w og oy movie st = Inr (Some st')"
  shows "\<exists>t d y cid gs p.
           c_title movie = Some t \<and> c_release_date movie = Some d \<and> t \<notin> snd st \<and>
           py_int (take 4 d) = Inr y \<and> oy - 2 \<le> y \<and>
           c_id movie = Some cid \<and> candidate_genres w cid = Inr gs \<and>
           set og \<inter> set gs \<noteq> {} \<and>
           st' = (fst st @ [(t, p, ''Similar movie based on genre and recency'')], insert t (snd st))"
  using assms
  by (auto simp: similar_body_def split: option.splits if_splits sum.splits)

lemma sequel_body_length:
  "sequel_body w info_title t st = Inr st' \<Longrightarrow> length (fst st') \<le> Suc (length (fst st))"
  by (auto dest!: sequel_body_cases)

lemma fallback_body_length:
  "fallback_body w movie st = Inr st' \<Longrightarrow> length (fst st') \<le> Suc (length (fst st))"
  by (auto dest!: fallback_body_cases)

lemma similar_body_length:
  "similar_body w og oy movie st = Inr (Some st') \<Longrightarrow> length (fst st') = Suc (length (fst st))"
  by (auto dest!: similar_body_accepts)

text \<open>Each loop, entered with fewer than five entries, leaves at most five.\<close>

lemma sequel_loop_length:
  "sequel_loop w info_title ts st = Inr st' \<Longrightarrow> length (fst st) < 5 \<Longrightarrow> length (fst st') \<le> 5"
proof (induction ts arbitrary: st)
  case Nil
  then show ?case by simp
next
  case (Cons t ts)
  from Cons.prems(1) obtain st1 where b: "sequel_body w info_title t st = Inr st1"
    by (auto split: sum.splits)
  have l: "length (fst st1) \<le> 5"
    using sequel_body_length [OF b] Cons.prems(2) by simp
  show ?case
  proof (cases "length (fst st1) \<ge> 5")
    case True
    then show ?thesis using Cons.prems(1) b l by simp
  next
    case False
    then have "sequel_loop w info_title ts st1 = Inr st'"
      using Cons.prems(1) b by simp
    then show ?thesis using Cons.IH False by simp
  qed
qed

lemma similar_loop_length:
  "similar_loop w og oy cs st = Inr st' \<Longrightarrow> length (fst st) < 5 \<Longrightarrow> length (fst st') \<le> 5"
proof (induction cs arbitrary: st)
  case Nil
  then show ?case by simp
next
  case (Cons c cs)
  from Cons.prems(1) obtain r where b: "similar_body w og oy c st = Inr r"
    by (auto split: sum.splits)
  show ?case
  proof (cases r)
    case None
    then show ?thesis using Cons b by simp
  next
    case (Some st1)
    have l: "length (fst st1) \<le> 5"
      using similar_body_length [of w og oy c st st1] b Some Cons.prems(2) by simp
    show ?thesis
    proof (cases "length (fst st1) \<ge> 5")
      case True
      then show ?thesis using Cons.prems(1) b Some l by simp
    next
      case False
      then have "similar_loop w og oy cs st1 = Inr st'"
        using Cons.prems(1) b Some by simp
      then show ?thesis using Cons.IH False by simp
    qed
  qed
qed

lemma fallback_loop_length:
  "fallback_loop w cs st = Inr st' \<Longrightarrow> length (fst st) < 5 \<Longrightarrow> length (fst st') \<le> 5"
proof (induction cs arbitrary: st)
  case Nil
  then show ?case by simp
next
  case (Cons c cs)
  from Cons.prems(1) obtain st1 where b: "fallback_body w c st = Inr st1"
    by (auto split: sum.splits)
  have l: "length (fst st1) \<le> 5"
    using fallback_body_length [OF b] Cons.prems(2) by simp
  show ?case
  proof (cases "length (fst st1) \<ge> 5")
    case True
    then show ?thesis using Cons.prems(1) b l by simp
  next
    case False
    then have "fallback_loop w cs st1 = Inr st'"
      using Cons.prems(1) b by simp
    then show ?thesis using Cons.IH False by simp
  qed
qed

lemma fallback_stage_length:
  "fallback_stage w og oy st = Inr st' \<Longrightarrow> length (fst st) < 5 \<Longrightarrow> length (fst st') \<le> 5"
  by (auto simp: fallback_stage_def split: sum.splits if_splits dest: fallback_loop_length)

text \<open>
  Each loop extends the list it is given. The new entries of the first and of the third
  stage carry the justification of their stage; those of the second stage come, in the
  order of the list the loop runs over, from candidates that passed every test of the loop
  body.
\<close>

lemma sequel_loop_extends:
  "sequel_loop w info_title ts st = Inr st' \<Longrightarrow>
   \<exists>new. fst st' = fst st @ new \<and>
         (\<forall>r \<in> set new. snd (snd r) = ''From the same series/collection'')"
proof (induction ts arbitrary: st)
  case Nil
  then show ?case by simp
next
  case (Cons t ts)
  from Cons.prems obtain st1 where b: "sequel_body w info_title t st = Inr st1"
    by (auto split: sum.splits)
  from sequel_body_cases [OF b] obtain one where
    one: "fst st1 = fst st @ one" "\<forall>r \<in> set one. snd (snd r) = ''From the same series/collection''"
    by fastforce
  show ?case
  proof (cases "length (fst st1) \<ge> 5")
    case True
    then have "st' = st1" using Cons.prems b by simp
    then show ?thesis using one by blast
  next
    case False
    then have "sequel_loop w info_title ts st1 = Inr st'"
      using Cons.prems b by simp
    from Cons.IH [OF this] obtain new where
      "fst st' = fst st1 @ new" "\<forall>r \<in> set new. snd (snd r) = ''From the same series/collection''"
      by blast
    then have "fst st' = fst st @ (one @ new) \<and>
        (\<forall>r \<in> set (one @ new). snd (snd r) = ''From the same series/collection'')"
      using one by auto
    then show ?thesis by blast
  qed
qed

lemma fallback_loop_extends:
  "fallback_loop w cs st = Inr st' \<Longrightarrow>
   \<exists>new. fst st' = fst st @ new \<and>
         (\<forall>r \<in> set new. snd (snd r) = ''Genre-based fallback recommendation'')"
proof (induction cs arbitrary: st)
  case Nil
  then show ?case by simp
next
  case (Cons c cs)
  from Cons.prems obtain st1 where b: "fallback_body w c st = Inr st1"
    by (auto split: sum.splits)
  from fallback_body_cases [OF b] obtain one where
    one: "fst st1 = fst st @ one" "\<forall>r \<in> set one. snd (snd r) = ''Genre-based fallback recommendation''"
    by fastforce
  show ?case
  proof (cases "length (fst st1) \<ge> 5")
    case True
    then have "st' = st1" using Cons.prems b by simp
    then show ?thesis using one by blast
  next
    case False
    then have "fallback_loop w cs st1 = Inr st'"
      using Cons.prems b by simp
    from Cons.IH [OF this] obtain new where
      "fst st' = fst st1 @ new" "\<forall>r \<in> set new. snd (snd r) = ''Genre-based fallback recommendation''"
      by blast
    then have "fst st' = fst st @ (one @ new) \<and>
        (\<forall>r \<in> set (one @ new). snd (snd r) = ''Genre-based fallback recommendation'')"
      using one by auto
    then show ?thesis by blast
  qed
qed

lemma fallback_stage_extends:
  "fallback_stage w og oy st = Inr st' \<Longrightarrow>
   \<exists>new. fst st' = fst st @ new \<and>
         (\<forall>r \<in> set new. snd (snd r) = ''Genre-based fallback recommendation'')"
  by (auto simp: fallback_stage_def split: sum.splits if_splits dest: fallback_loop_extends)

lemma similar_loop_extends:
  "similar_loop w og oy cs st = Inr st' \<Longrightarrow>
   \<exists>new. fst st' = fst st @ new \<and>
         (\<forall>r \<in> set new. snd (snd r) = ''Similar movie based on genre and recency'' \<and>
            (\<exists>c \<in> set cs. \<exists>st0.
               similar_body w og oy c st0 = Inr (Some (fst st0 @ [r], insert (fst r) (snd st0))))) \<and>
         subseq (map (\<lambda>r. Some (fst r)) new) (map c_title cs)"
proof (induction cs arbitrary: st)
  case Nil
  then show ?case by simp
next
  case (Cons c cs)
  let ?tag = "''Similar movie based on genre and recency''"
  let ?made = "\<lambda>cs r. \<exists>c \<in> set cs. \<exists>st0.
      similar_body w og oy c st0 = Inr (Some (fst st0 @ [r], insert (fst r) (snd st0)))"
  from Cons.prems obtain res where b: "similar_body w og oy c st = Inr res"
    by (auto split: sum.splits)
  show ?case
  proof (cases res)
    case None
    then have "similar_loop w og oy cs st = Inr st'"
      using Cons.prems b by simp
    from Cons.IH [OF this] obtain new where new:
      "fst st' = fst st @ new"
      "\<forall>r \<in> set new. snd (snd r) = ?tag \<and> ?made cs r"
      "subseq (map (\<lambda>r. Some (fst r)) new) (map c_title cs)"
      by blast
    have "\<forall>r \<in> set new. snd (snd r) = ?tag \<and> ?made (c # cs) r"
      using new(2) by auto
    moreover have "subseq (map (\<lambda>r. Some (fst r)) new) (map c_title (c # cs))"
      using new(3) by auto
    ultimately show ?thesis using new(1) by blast
  next
    case (Some st1)
    from similar_body_accepts [of w og oy c st st1] b Some obtain t p where
      t: "c_title c = Some t" and
      st1: "st1 = (fst st @ [(t, p, ?tag)], insert t (snd st))"
      by auto
    define r0 where "r0 = (t, p, ?tag)"
    have "similar_body w og oy c st = Inr (Some (fst st @ [r0], insert (fst r0) (snd st)))"
      using b Some st1 by (simp add: r0_def)
    then have made0: "?made (c # cs) r0"
      by (intro bexI [of _ c] exI [of _ st]) simp_all
    show ?thesis
    proof (cases "length (fst st1) \<ge> 5")
      case True
      then have "st' = st1" using Cons.prems b Some by simp
      then have "fst st' = fst st @ [r0]" using st1 r0_def by simp
      moreover have "\<forall>r \<in> set [r0]. snd (snd r) = ?tag \<and> ?made (c # cs) r"
        using made0 by (simp add: r0_def)
      moreover have "subseq (map (\<lambda>r. Some (fst r)) [r0]) (map c_title (c # cs))"
        using t by (auto simp: r0_def)
      ultimately show ?thesis by blast
    next
      case False
      then have "similar_loop w og oy cs st1 = Inr st'"
        using Cons.prems b Some by simp
      from Cons.IH [OF this] obtain new where new:
        "fst st' = fst st1 @ new"
        "\<forall>r \<in> set new. snd (snd r) = ?tag \<and> ?made cs r"
        "subseq (map (\<lambda>r. Some (fst r)) new) (map c_title cs)"
        by blast
      have "fst st' = fst st @ (r0 # new)" using new(1) st1 r0_def by simp
      moreover have "\<forall>r \<in> set (r0 # new). snd (snd r) = ?tag \<and> ?made (c # cs) r"
        using new(2) made0 by (auto simp: r0_def)
      moreover have "subseq (map (\<lambda>r. Some (fst r)) (r0 # new)) (map c_title (c # cs))"
        using new(3) t by (auto simp: r0_def)
      ultimately show ?thesis by blast
    qed
  qed
qed

text \<open>
  A loop that ends with fewer than five entries never took its \<^verbatim>\<open>break\<close>: it gives what the
  stage supplies.
\<close>

lemma sequel_loop_supply:
  "sequel_loop w info_title ts st = Inr st' \<Longrightarrow> length (fst st') < 5 \<Longrightarrow>
   sequel_supply w info_title ts st = Inr st'"
proof (induction ts arbitrary: st)
  case Nil
  then show ?case by simp
next
  case (Cons t ts)
  from Cons.prems(1) obtain st1 where b: "sequel_body w info_title t st = Inr st1"
    by (auto split: sum.splits)
  have "\<not> length (fst st1) \<ge> 5"
    using Cons.prems b by auto
  then have "sequel_loop w info_title ts st1 = Inr st'"
    using Cons.prems(1) b by simp
  then show ?case using Cons.IH Cons.prems(2) b by simp
qed

lemma similar_loop_supply:
  "similar_loop w og oy cs st = Inr st' \<Longrightarrow> length (fst st') < 5 \<Longrightarrow>
   similar_supply w og oy cs st = Inr st'"
proof (induction cs arbitrary: st)
  case Nil
  then show ?case by simp
next
  case (Cons c cs)
  from Cons.prems(1) obtain res where b: "similar_body w og oy c st = Inr res"
    by (auto split: sum.splits)
  show ?case
  proof (cases res)
    case None
    then show ?thesis using Cons b by simp
  next
    case (Some st1)
    have "\<not> length (fst st1) \<ge> 5"
      using Cons.prems b Some by auto
    then have "similar_loop w og oy cs st1 = Inr st'"
      using Cons.prems(1) b Some by simp
    then show ?thesis using Cons.IH Cons.prems(2) b Some by simp
  qed
qed

lemma fallback_loop_supply:
  "fallback_loop w cs st = Inr st' \<Longrightarrow> length (fst st') < 5 \<Longrightarrow>
   fallback_supply w cs st = Inr st'"
proof (induction cs arbitrary: st)
  case Nil
  then show ?case by simp
next
  case (Cons c cs)
  from Cons.prems(1) obtain st1 where b: "fallback_body w c st = Inr st1"
    by (auto split: sum.splits)
  have "\<not> length (fst st1) \<ge> 5"
    using Cons.prems b by auto
  then have "fallback_loop w cs st1 = Inr st'"
    using Cons.prems(1) b by simp
  then show ?case using Cons.IH Cons.prems(2) b by simp
qed

lemma fallback_stage_supply:
  "fallback_stage w og oy st = Inr st' \<Longrightarrow> length (fst st') < 5 \<Longrightarrow>
   fallback_stage_supply w og oy st = Inr st'"
  by (auto simp: fallback_stage_def fallback_stage_supply_def
      split: sum.splits if_splits dest: fallback_loop_supply)

section \<open>The stages of the cascade\<close>

text \<open>
  The intermediate states of a cascade that returns: the lists after the first, the second
  and the third stage, each got from the one before by its stage when that one has fewer
  than five entries.
\<close>

lemma cascade_states:
  assumes "cascade w info movie_id = Inr recs"
  obtains oy sequels collection_id st1 st2 st3 where
    "original_year info = Inr oy"
    "fetch_movie_collection w movie_id = Inr (sequels, collection_id)"
    "sequel_loop w (title info) sequels ([], {}) = Inr st1"
    "(if length (fst st1) < 5
      then similar_loop w (original_genres info) oy (sorted_similars (similar info)) st1
      else Inr st1) = Inr st2"
    "(if length (fst st2) < 5 then fallback_stage w (original_genres info) oy st2 else Inr st2)
       = Inr st3"
    "recs = fst st3"
  using assms unfolding cascade_def
  by (auto split: sum.splits prod.splits)

lemma cascade_length:
  assumes "cascade w info movie_id = Inr recs"
  shows "length recs \<le> 5"
proof -
  from assms obtain oy sequels collection_id st1 st2 st3 where
    "original_year info = Inr oy" and
    "fetch_movie_collection w movie_id = Inr (sequels, collection_id)" and
    s1: "sequel_loop w (title info) sequels ([], {}) = Inr st1" and
    s2: "(if length (fst st1) < 5
          then similar_loop w (original_genres info) oy (sorted_similars (similar info)) st1
          else Inr st1) = Inr st2" and
    s3: "(if length (fst st2) < 5 then fallback_stage w (original_genres info) oy st2 else Inr st2)
           = Inr st3" and
    r: "recs = fst st3"
    by (rule cascade_states)
  have l1: "length (fst st1) \<le> 5"
    using sequel_loop_length [OF s1] by simp
  have l2: "length (fst st2) \<le> 5"
    using s2 l1 similar_loop_length by (auto split: if_splits)
  have "length (fst st3) \<le> 5"
    using s3 l2 fallback_stage_length by (auto split: if_splits)
  then show ?thesis using r by simp
qed

lemma cascade_parts:
  assumes "cascade w info movie_id = Inr recs"
  shows "\<exists>oy new1 new2 new3.
           original_year info = Inr oy \<and> recs = new1 @ new2 @ new3 \<and>
           (\<forall>r \<in> set new1. snd (snd r) = ''From the same series/collection'') \<and>
           (\<forall>r \<in> set new2. snd (snd r) = ''Similar movie based on genre and recency'' \<and>
              (\<exists>c \<in> set (sorted_similars (similar info)). \<exists>st0.
                 similar_body w (original_genres info) oy c st0
                   = Inr (Some (fst st0 @ [r], insert (fst r) (snd st0))))) \<and>
           subseq (map (\<lambda>r. Some (fst r)) new2) (map c_title (sorted_similars (similar info))) \<and>
           (\<forall>r \<in> set new3. snd (snd r) = ''Genre-based fallback recommendation'')"
proof -
  let ?cs = "sorted_similars (similar info)"
  let ?og = "original_genres info"
  from assms obtain oy sequels collection_id st1 st2 st3 where
    oy: "original_year info = Inr oy" and
    "fetch_movie_collection w movie_id = Inr (sequels, collection_id)" and
    s1: "sequel_loop w (title info) sequels ([], {}) = Inr st1" and
    s2: "(if length (fst st1) < 5 then similar_loop w ?og oy ?cs st1 else Inr st1) = Inr st2" and
    s3: "(if length (fst st2) < 5 then fallback_stage w ?og oy st2 else Inr st2) = Inr st3" and
    r: "recs = fst st3"
    by (rule cascade_states)
  from sequel_loop_extends [OF s1] obtain new1 where
    n1: "fst st1 = new1" "\<forall>r \<in> set new1. snd (snd r) = ''From the same series/collection''"
    by auto
  have "\<exists>new2. fst st2 = fst st1 @ new2 \<and>
         (\<forall>r \<in> set new2. snd (snd r) = ''Similar movie based on genre and recency'' \<and>
            (\<exists>c \<in> set ?cs. \<exists>st0.
               similar_body w ?og oy c st0 = Inr (Some (fst st0 @ [r], insert (fst r) (snd st0))))) \<and>
         subseq (map (\<lambda>r. Some (fst r)) new2) (map c_title ?cs)"
  proof (cases "length (fst st1) < 5")
    case True
    then have "similar_loop w ?og oy ?cs st1 = Inr st2" using s2 by simp
    then show ?thesis by (rule similar_loop_extends)
  next
    case False
    then have "fst st2 = fst st1 @ []" using s2 by simp
    then show ?thesis by (intro exI [of _ "[]"]) simp
  qed
  then obtain new2 where
    n2: "fst st2 = fst st1 @ new2"
      "\<forall>r \<in> set new2. snd (snd r) = ''Similar movie based on genre and recency'' \<and>
         (\<exists>c \<in> set ?cs. \<exists>st0.
            similar_body w ?og oy c st0 = Inr (Some (fst st0 @ [r], insert (fst r) (snd st0))))"
      "subseq (map (\<lambda>r. Some (fst r)) new2) (map c_title ?cs)"
    by blast
  have "\<exists>new3. fst st3 = fst st2 @ new3 \<and>
         (\<forall>r \<in> set new3. snd (snd r) = ''Genre-based fallback recommendation'')"
  proof (cases "length (fst st2) < 5")
    case True
    then have "fallback_stage w ?og oy st2 = Inr st3" using s3 by simp
    then show ?thesis by (rule fallback_stage_extends)
  next
    case False
    then have "fst st3 = fst st2 @ []" using s3 by simp
    then show ?thesis by (intro exI [of _ "[]"]) simp
  qed
  then obtain new3 where
    n3: "fst st3 = fst st2 @ new3"
      "\<forall>r \<in> set new3. snd (snd r) = ''Genre-based fallback recommendation''"
    by blast
  have "recs = new1 @ new2 @ new3"
    using r n1(1) n2(1) n3(1) by simp
  then show ?thesis using oy n1(2) n2(2,3) n3(2) by blast
qed

lemma cascade_supplied:
  assumes "cascade w info movie_id = Inr recs" and "length recs < 5"
  shows "supplied w info movie_id = Inr recs"
proof -
  let ?cs = "sorted_similars (similar info)"
  let ?og = "original_genres info"
  from assms(1) obtain oy sequels collection_id st1 st2 st3 where
    oy: "original_year info = Inr oy" and
    c: "fetch_movie_collection w movie_id = Inr (sequels, collection_id)" and
    s1: "sequel_loop w (title info) sequels ([], {}) = Inr st1" and
    s2: "(if length (fst st1) < 5 then similar_loop w ?og oy ?cs st1 else Inr st1) = Inr st2" and
    s3: "(if length (fst st2) < 5 then fallback_stage w ?og oy st2 else Inr st2) = Inr st3" and
    r: "recs = fst st3"
    by (rule cascade_states)
  have l3: "length (fst st3) < 5" using assms(2) r by simp
  have "length (fst st2) \<le> length (fst st3)"
    using s3 fallback_stage_extends [of w ?og oy st2 st3] by (auto split: if_splits)
  then have l2: "length (fst st2) < 5" using l3 by simp
  have "length (fst st1) \<le> length (fst st2)"
    using s2 similar_loop_extends [of w ?og oy ?cs st1 st2] by (auto split: if_splits)
  then have l1: "length (fst st1) < 5" using l2 by simp
  have "sequel_supply w (title info) sequels ([], {}) = Inr st1"
    using sequel_loop_supply [OF s1 l1] .
  moreover have "similar_supply w ?og oy ?cs st1 = Inr st2"
    using s2 l1 l2 similar_loop_supply by simp
  moreover have "fallback_stage_supply w ?og oy st2 = Inr st3"
    using s3 l2 l3 fallback_stage_supply by simp
  ultimately show ?thesis
    using oy c r by (simp add: supplied_def)
qed

lemma recommend_resolved:
  assumes "recommend w movie_title = Inr (recs, Resolved info)"
  shows "\<exists>movie_id. fetch_movie_data_from_api w movie_title = Inr (Some (info, movie_id)) \<and>
           cascade w info movie_id = Inr recs"
  using assms unfolding recommend_def
  by (auto split: sum.splits option.splits prod.splits)

lemma inception_recommend:
  "recommend inception_world ''inception'' = Inr (inception_recs, Resolved inception_info)"
  by code_simp

lemma inception_fetch:
  "fetch_movie_data_from_api inception_world ''inception'' = Inr (Some (inception_info, 27205))"
  by code_simp

section \<open>The length of the returned list\<close>

text \<open>
  Claim C3. Whatever recommend returns has at most five entries. When a movie was resolved
  and the list has fewer than five entries, the list is all that the three stages supply:
  every accepted candidate of every stage is in it, so the stages together supplied fewer
  than five. (When no movie is resolved the list is the one sentinel entry.)
\<close>

theorem recommend_at_most_five:
  assumes "recommend w movie_title = Inr (recs, r)"
  shows "length recs \<le> 5 \<and>
         (\<forall>info movie_id.
            fetch_movie_data_from_api w movie_title = Inr (Some (info, movie_id)) \<longrightarrow>
            length recs < 5 \<longrightarrow> supplied w info movie_id = Inr recs)"
proof (cases "fetch_movie_data_from_api w movie_title")
  case (Inl e)
  then show ?thesis using assms by (simp add: recommend_def)
next
  case (Inr found)
  show ?thesis
  proof (cases found)
    case None
    then have "recs = [not_found]"
      using assms Inr by (simp add: recommend_def)
    then show ?thesis using Inr None by simp
  next
    case (Some p)
    obtain info movie_id where p: "p = (info, movie_id)" by (cases p)
    have c: "cascade w info movie_id = Inr recs"
      using assms Inr Some p by (simp add: recommend_def split: sum.splits)
    show ?thesis
      using Inr Some p cascade_length [OF c] cascade_supplied [OF c] by simp
  qed
qed

theorem recommend_at_most_five_witness:
  "recommend inception_world ''inception'' = Inr (inception_recs, Resolved inception_info) \<and>
   fetch_movie_data_from_api inception_world ''inception'' = Inr (Some (inception_info, 27205)) \<and>
   length inception_recs = 3 \<and>
   supplied inception_world inception_info 27205 = Inr inception_recs"
proof -
  have l: "length inception_recs = 3" by (simp add: inception_recs_def)
  show ?thesis
    using recommend_at_most_five [OF inception_recommend] inception_recommend inception_fetch l
    by simp
qed

section \<open>The second stage\<close>

lemma set_sorted_similars: "set (sorted_similars cs) = set cs"
  by (simp add: sorted_similars_def py_sorted_reverse_def)

text \<open>
  Claim C6. An entry of the returned list with the justification of the second stage is
  the entry of one of the resolved movie's similar candidates, whose release year (the
  integer read from the first four characters of its date) is at least the original year
  minus 2 and whose fetched genre names have a member in common with the genres of the
  resolved movie.
\<close>

theorem similar_entry_recent_and_related:
  assumes "recommend w movie_title = Inr (recs, Resolved info)"
    and "(t, poster, ''Similar movie based on genre and recency'') \<in> set recs"
  shows "\<exists>oy. original_year info = Inr oy \<and>
           (\<exists>c \<in> set (similar info). \<exists>d y cid gs.
              c_title c = Some t \<and> c_release_date c = Some d \<and>
              py_int (take 4 d) = Inr y \<and> \<not> y < oy - 2 \<and>
              c_id c = Some cid \<and> candidate_genres w cid = Inr gs \<and>
              set (original_genres info) \<inter> set gs \<noteq> {})"
proof -
  let ?r = "(t, poster, ''Similar movie based on genre and recency'')"
  from recommend_resolved [OF assms(1)] obtain movie_id where
    "cascade w info movie_id = Inr recs" by blast
  from cascade_parts [OF this] obtain oy new1 new2 new3 where
    oy: "original_year info = Inr oy" and
    recs: "recs = new1 @ new2 @ new3" and
    n1: "\<forall>r \<in> set new1. snd (snd r) = ''From the same series/collection''" and
    n2: "\<forall>r \<in> set new2. snd (snd r) = ''Similar movie based on genre and recency'' \<and>
           (\<exists>c \<in> set (sorted_similars (similar info)). \<exists>st0.
              similar_body w (original_genres info) oy c st0
                = Inr (Some (fst st0 @ [r], insert (fst r) (snd st0))))" and
    n3: "\<forall>r \<in> set new3. snd (snd r) = ''Genre-based fallback recommendation''"
    by blast
  have "?r \<notin> set new1" using n1 by fastforce
  moreover have "?r \<notin> set new3" using n3 by fastforce
  ultimately have "?r \<in> set new2" using assms(2) recs by simp
  then obtain c st0 where
    c: "c \<in> set (similar info)" and
    b: "similar_body w (original_genres info) oy c st0
          = Inr (Some (fst st0 @ [?r], insert (fst ?r) (snd st0)))"
    using n2 set_sorted_similars by blast
  from similar_body_accepts [OF b] obtain t' d y cid gs p where
    "c_title c = Some t'" "c_release_date c = Some d"
    "py_int (take 4 d) = Inr y" "oy - 2 \<le> y"
    "c_id c = Some cid" "candidate_genres w cid = Inr gs"
    "set (original_genres info) \<inter> set gs \<noteq> {}"
    "(fst st0 @ [?r], insert (fst ?r) (snd st0))
       = (fst st0 @ [(t', p, ''Similar movie based on genre and recency'')], insert t' (snd st0))"
    by blast
  then have "c_title c = Some t \<and> c_release_date c = Some d \<and>
      py_int (take 4 d) = Inr y \<and> \<not> y < oy - 2 \<and>
      c_id c = Some cid \<and> candidate_genres w cid = Inr gs \<and>
      set (original_genres info) \<inter> set gs \<noteq> {}"
    by simp
  then show ?thesis using oy c by blast
qed

theorem similar_entry_recent_and_related_witness:
  "recommend inception_world ''inception'' = Inr (inception_recs, Resolved inception_info) \<and>
   (''Interstellar'', ''https://image.tmdb.org/t/p/w500/int.jpg'',
      ''Similar movie based on genre and recency'') \<in> set inception_recs \<and>
   (\<exists>oy. original_year inception_info = Inr oy \<and>
      (\<exists>c \<in> set (similar inception_info). \<exists>d y cid gs.
         c_title c = Some ''Interstellar'' \<and> c_release_date c = Some d \<and>
         py_int (take 4 d) = Inr y \<and> \<not> y < oy - 2 \<and>
         c_id c = Some cid \<and> candidate_genres inception_world cid = Inr gs \<and>
         set (original_genres inception_info) \<inter> set gs \<noteq> {}))"
proof -
  have m: "(''Interstellar'', ''https://image.tmdb.org/t/p/w500/int.jpg'',
      ''Similar movie based on genre and recency'') \<in> set inception_recs"
    by (simp add: inception_recs_def)
  show ?thesis
    using similar_entry_recent_and_related [OF inception_recommend m] inception_recommend m
    by simp
qed

lemma filter_middle:
  assumes "\<forall>x \<in> set as. \<not> P x" and "\<forall>x \<in> set bs. P x" and "\<forall>x \<in> set cs. \<not> P x"
  shows "filter P (as @ bs @ cs) = bs"
proof -
  have "filter P as = []" using assms(1) by (simp add: filter_empty_conv)
  moreover have "filter P bs = bs" using assms(2) by (simp add: filter_id_conv)
  moreover have "filter P cs = []" using assms(3) by (simp add: filter_empty_conv)
  ultimately show ?thesis by simp
qed

lemma second_stage_entries_in_order:
  assumes "recommend w movie_title = Inr (recs, Resolved info)"
  shows "subseq
           (map (\<lambda>r. Some (fst r))
              (filter (\<lambda>r. snd (snd r) = ''Similar movie based on genre and recency'') recs))
           (map c_title (sorted_similars (similar info)))"
proof -
  let ?P = "\<lambda>r :: recommendation. snd (snd r) = ''Similar movie based on genre and recency''"
  from recommend_resolved [OF assms] obtain movie_id where
    "cascade w info movie_id = Inr recs" by blast
  from cascade_parts [OF this] obtain oy new1 new2 new3 where
    recs: "recs = new1 @ new2 @ new3" and
    n1: "\<forall>r \<in> set new1. snd (snd r) = ''From the same series/collection''" and
    n2: "\<forall>r \<in> set new2. ?P r" and
    sub: "subseq (map (\<lambda>r. Some (fst r)) new2) (map c_title (sorted_similars (similar info)))" and
    n3: "\<forall>r \<in> set new3. snd (snd r) = ''Genre-based fallback recommendation''"
    by blast
  have "\<forall>r \<in> set new1. \<not> ?P r" using n1 by simp
  moreover have "\<forall>r \<in> set new3. \<not> ?P r" using n3 by simp
  ultimately have "filter ?P recs = new2"
    unfolding recs using n2 by (intro filter_middle) simp_all
  then show ?thesis using sub by simp
qed

text \<open>
  Claim C5 as stated does not hold. A candidate without the field \<^verbatim>\<open>release_date\<close> is
  sorted as "1900" and so stands before a candidate dated 1895: it does not come last. A
  candidate whose date is the empty string is sorted as the empty string, not as "1900":
  it stands after the candidate dated 1895.
\<close>

theorem similar_order_counterexample:
  "sorted_similars
     [\<lparr> c_id = Some 1, c_title = Some ''A'', c_release_date = None \<rparr>, entry 2 ''B'' ''1895-12-28'']
     = [\<lparr> c_id = Some 1, c_title = Some ''A'', c_release_date = None \<rparr>, entry 2 ''B'' ''1895-12-28''] \<and>
   \<not> dateless_last
     (sorted_similars
        [\<lparr> c_id = Some 1, c_title = Some ''A'', c_release_date = None \<rparr>, entry 2 ''B'' ''1895-12-28'']) \<and>
   sorted_similars [entry 3 ''C'' '''', entry 2 ''B'' ''1895-12-28'']
     = [entry 2 ''B'' ''1895-12-28'', entry 3 ''C'' ''''] \<and>
   \<not> descending
     (map spec_date_key (sorted_similars [entry 3 ''C'' '''', entry 2 ''B'' ''1895-12-28'']))"
  by code_simp

text \<open>
  Claim C5 as amended. The list that the second stage runs over is a rearrangement of the
  similar candidates in descending lexicographic order of the sort key, which is the raw
  release-date string when the field is present (the empty string included) and "1900"
  only when the field is absent; candidates with equal keys keep their upstream order.
  The entries that the second stage adds to the returned list follow that order.
\<close>

theorem similar_visit_order:
  "mset (sorted_similars cs) = mset cs \<and>
   descending (map date_key (sorted_similars cs)) \<and>
   (\<forall>k. filter (\<lambda>c. date_key c = k) (sorted_similars cs) = filter (\<lambda>c. date_key c = k) cs) \<and>
   (recommend w movie_title = Inr (recs, Resolved info) \<longrightarrow>
      subseq
        (map (\<lambda>r. Some (fst r))
           (filter (\<lambda>r. snd (snd r) = ''Similar movie based on genre and recency'') recs))
        (map c_title (sorted_similars (similar info))))"
  unfolding sorted_similars_def
  using py_sorted_reverse_mset [of date_key cs] py_sorted_reverse_descending [of date_key cs]
    py_sorted_reverse_stable [of date_key _ cs]
    second_stage_entries_in_order [of w movie_title recs info, unfolded sorted_similars_def]
  by simp

theorem similar_visit_order_witness:
  "recommend inception_world ''inception'' = Inr (inception_recs, Resolved inception_info) \<and>
   sorted_similars (similar inception_info)
     = [entry 157336 ''Interstellar'' ''2014-11-05'', entry 11 ''Old Movie'' ''1990-01-01''] \<and>
   mset (sorted_similars (similar inception_info)) = mset (similar inception_info) \<and>
   descending (map date_key (sorted_similars (similar inception_info))) \<and>
   subseq
     (map (\<lambda>r. Some (fst r))
        (filter (\<lambda>r. snd (snd r) = ''Similar movie based on genre and recency'') inception_recs))
     (map c_title (sorted_similars (similar inception_info)))"
proof -
  have s: "sorted_similars (similar inception_info)
     = [entry 157336 ''Interstellar'' ''2014-11-05'', entry 11 ''Old Movie'' ''1990-01-01'']"
    by code_simp
  show ?thesis
    using similar_visit_order
      [of "similar inception_info" inception_world "''inception''" inception_recs inception_info]
      inception_recommend s
    by simp
qed

end
